theory Spec2Isabelle
  imports Complex_Main
begin

section \<open>Strings\<close>

text \<open>
  Python's \<^verbatim>\<open>str.replace(old, new)\<close>: a left-to-right scan that replaces every
  non-overlapping occurrence of \<open>old\<close>. The third argument of the scan counts the
  characters of a matched occurrence that are still to be skipped. (pandas 2 applies
  \<^verbatim>\<open>Series.str.replace\<close> with \<^verbatim>\<open>regex=False\<close>, that is, this literal
  replacement, to every element.)
\<close>

fun replace_scan :: "string \<Rightarrow> string \<Rightarrow> nat \<Rightarrow> string \<Rightarrow> string" where
  "replace_scan old new k [] = []"
| "replace_scan old new (Suc k) (c # cs) = replace_scan old new k cs"
| "replace_scan old new 0 (c # cs) =
     (if take (length old) (c # cs) = old
      then new @ replace_scan old new (length old - 1) cs
      else c # replace_scan old new 0 cs)"

definition str_replace :: "string \<Rightarrow> string \<Rightarrow> string \<Rightarrow> string" where
  "str_replace old new s =
     (if old = [] then new @ concat (map (\<lambda>c. c # new) s) else replace_scan old new 0 s)"

text \<open>\<open>contains sub s\<close>: \<open>sub\<close> occurs in \<open>s\<close> as a contiguous piece.\<close>

fun contains :: "string \<Rightarrow> string \<Rightarrow> bool" where
  "contains sub [] = (sub = [])"
| "contains sub (c # cs) = (take (length sub) (c # cs) = sub \<or> contains sub cs)"

text \<open>Decimal digits of a natural number and of an integer, as \<^verbatim>\<open>str(int)\<close> prints them.\<close>

definition digit_char :: "nat \<Rightarrow> char" where
  "digit_char d = char_of (48 + d)"

fun str_nat :: "nat \<Rightarrow> string" where
  "str_nat n = (if n < 10 then [digit_char n] else str_nat (n div 10) @ [digit_char (n mod 10)])"

declare str_nat.simps [simp del]

definition str_int :: "int \<Rightarrow> string" where
  "str_int i = (if i < 0 then CHR ''-'' # str_nat (nat (- i)) else str_nat (nat i))"

text \<open>
  \<^verbatim>\<open>str(float)\<close> for a float whose shortest decimal representation is the number
  \<open>x\<close>, inside the range where Python prints floats positionally: the integer part, a
  point, and the fractional digits (at most 17 significant digits exist), or \<open>0\<close> when
  there are none. A float is identified with the decimal number Python prints for it;
  exponent notation, infinities and the negative zero are outside the model.
\<close>

fun frac_digits :: "nat \<Rightarrow> real \<Rightarrow> string" where
  "frac_digits 0 x = []"
| "frac_digits (Suc k) x =
     (if x = 0 then []
      else digit_char (nat \<lfloor>x * 10\<rfloor>) # frac_digits k (x * 10 - of_int \<lfloor>x * 10\<rfloor>))"

definition str_float :: "real \<Rightarrow> string" where
  "str_float x =
     (let a = \<bar>x\<bar>; f = frac_digits 17 (a - of_int \<lfloor>a\<rfloor>)
      in (if x < 0 then ''-'' else '''') @ str_nat (nat \<lfloor>a\<rfloor>) @ ''.'' @ (if f = [] then ''0'' else f))"

section \<open>Helper lists and dictionaries (lines 52-61)\<close>

datatype phase = Phase1 | Phase2 | Phase3 | Phase4 | Phase5

definition phases :: "phase list" where
  "phases = [Phase1, Phase2, Phase3, Phase4, Phase5]"

fun points_per_phase :: "phase \<Rightarrow> string" where
  "points_per_phase Phase1 = ''15''"
| "points_per_phase Phase2 = ''25''"
| "points_per_phase Phase3 = ''25''"
| "points_per_phase Phase4 = ''35''"
| "points_per_phase Phase5 = ''20''"

fun float_penalized_points_per_phase :: "phase \<Rightarrow> real" where
  "float_penalized_points_per_phase Phase1 = 12.75"
| "float_penalized_points_per_phase Phase2 = 21.25"
| "float_penalized_points_per_phase Phase3 = 21.25"
| "float_penalized_points_per_phase Phase4 = 29.75"
| "float_penalized_points_per_phase Phase5 = 17"

fun str_penalized_points_per_phase :: "phase \<Rightarrow> string" where
  "str_penalized_points_per_phase Phase1 = ''12.75''"
| "str_penalized_points_per_phase Phase2 = ''21.25''"
| "str_penalized_points_per_phase Phase3 = ''21.25''"
| "str_penalized_points_per_phase Phase4 = ''29.75''"
| "str_penalized_points_per_phase Phase5 = ''17''"

section \<open>The scoreboard dataframe (lines 68-80)\<close>

text \<open>
  A cell of the frame that \<^verbatim>\<open>pd.read_html\<close> returns: an integer (a column of dtype
  int64), a float or a missing value (float64), or text (a column of dtype object).
\<close>

datatype cell = PyInt int | PyFloat real | PyNan | PyStr string

datatype pyfloat = NaN | Val real

text \<open>
  A row has one cell per phase column and the \<open>Score\<close> cell; a dataframe is the list of
  its rows in index order (the index \<^verbatim>\<open>read_html\<close> gives is 0, 1, 2, ..., so every
  label names one row).
\<close>

record ('c, 's) row =
  p1 :: 'c
  p2 :: 'c
  p3 :: 'c
  p4 :: 'c
  p5 :: 'c
  Score :: 's

fun col :: "phase \<Rightarrow> ('c, 's) row \<Rightarrow> 'c" where
  "col Phase1 r = p1 r"
| "col Phase2 r = p2 r"
| "col Phase3 r = p3 r"
| "col Phase4 r = p4 r"
| "col Phase5 r = p5 r"

text \<open>Python's \<open>==\<close> between a cell and a number, and between a cell and a text.\<close>

fun cell_eq_num :: "cell \<Rightarrow> real \<Rightarrow> bool" where
  "cell_eq_num (PyInt i) x = (of_int i = x)"
| "cell_eq_num (PyFloat y) x = (y = x)"
| "cell_eq_num PyNan x = False"
| "cell_eq_num (PyStr s) x = False"

fun cell_eq_str :: "cell \<Rightarrow> string \<Rightarrow> bool" where
  "cell_eq_str (PyStr s) t = (s = t)"
| "cell_eq_str c t = False"

text \<open>
  \<^verbatim>\<open>df.replace({column: v, ...}, "Penalized")\<close> looks for \<open>v\<close> in that column only;
  here for one cell of the column of phase \<open>ph\<close>, first with the float table, then with
  the text table (line 71).
\<close>

definition replace_float :: "phase \<Rightarrow> cell \<Rightarrow> cell" where
  "replace_float ph c =
     (if cell_eq_num c (float_penalized_points_per_phase ph) then PyStr ''Penalized'' else c)"

definition replace_str :: "phase \<Rightarrow> cell \<Rightarrow> cell" where
  "replace_str ph c =
     (if cell_eq_str c (str_penalized_points_per_phase ph) then PyStr ''Penalized'' else c)"

fun astype_str :: "cell \<Rightarrow> string" where
  "astype_str (PyInt i) = str_int i"
| "astype_str (PyFloat x) = str_float x"
| "astype_str PyNan = ''nan''"
| "astype_str (PyStr s) = s"

text \<open>Lines 71-75 on one phase cell: both replacements, the cast to text, the removal of \<open>.0\<close>.\<close>

definition normalize_cell :: "phase \<Rightarrow> cell \<Rightarrow> string" where
  "normalize_cell ph c =
     str_replace ''.0'' '''' (astype_str (replace_str ph (replace_float ph c)))"

text \<open>
  Line 80 on the \<open>Score\<close> cell, which line 71 has cast to text: \<^verbatim>\<open>float(text)\<close>.
  Python's parser of floats is the parameter \<open>float_of_text\<close>; \<open>None\<close> is its ValueError.
\<close>

definition normalize_row ::
  "(string \<Rightarrow> pyfloat option) \<Rightarrow> (cell, cell) row \<Rightarrow> (string, pyfloat) row option" where
  "normalize_row float_of_text r =
     (case float_of_text (astype_str (Score r)) of
        None \<Rightarrow> None
      | Some x \<Rightarrow>
          Some \<lparr>p1 = normalize_cell Phase1 (p1 r), p2 = normalize_cell Phase2 (p2 r),
                p3 = normalize_cell Phase3 (p3 r), p4 = normalize_cell Phase4 (p4 r),
                p5 = normalize_cell Phase5 (p5 r), Score = x\<rparr>)"

fun normalize_rows ::
  "(string \<Rightarrow> pyfloat option) \<Rightarrow> (cell, cell) row list \<Rightarrow> (string, pyfloat) row list option" where
  "normalize_rows float_of_text [] = Some []"
| "normalize_rows float_of_text (r # rs) =
     (case normalize_row float_of_text r of
        None \<Rightarrow> None
      | Some r' \<Rightarrow>
          (case normalize_rows float_of_text rs of None \<Rightarrow> None | Some rs' \<Rightarrow> Some (r' # rs')))"

type_synonym frame = "(string, pyfloat) row list"

text \<open>What ends the script early: the two \<^verbatim>\<open>exit(message)\<close> calls and the exceptions.\<close>

datatype fetch_exn = URLError | HTTPError nat | UnicodeDecodeError

datatype error =
    Exit string
  | FetchRaised fetch_exn
  | ReadHtmlRaised
  | ValueError
  | AttributeError
  | KeyError string

definition scoreboard_df ::
  "(string \<Rightarrow> pyfloat option) \<Rightarrow> (cell, cell) row list \<Rightarrow> error + frame" where
  "scoreboard_df float_of_text raw =
     (case normalize_rows float_of_text raw of None \<Rightarrow> Inl ValueError | Some df \<Rightarrow> Inr df)"

section \<open>Date and time (lines 87-91)\<close>

text \<open>
  \<^verbatim>\<open>re.search(r"updated: (.*) \(updated", html)\<close>: the leftmost position where
  \<open>updated: \<close> stands and, on the rest of that line (the dot does not match a newline),
  \<open> (updated\<close> follows somewhere; the group is the longest such stretch in between.
  \<open>None\<close> when there is no match.
\<close>

definition group_before :: "string \<Rightarrow> string \<Rightarrow> string option" where
  "group_before pat line =
     (case filter (\<lambda>j. take (length pat) (drop j line) = pat) (rev [0..<Suc (length line)]) of
        [] \<Rightarrow> None
      | j # _ \<Rightarrow> Some (take j line))"

fun search_updated :: "string \<Rightarrow> string option" where
  "search_updated [] = None"
| "search_updated (c # cs) =
     (if take 9 (c # cs) = ''updated: ''
      then (case group_before '' (updated'' (takeWhile (\<lambda>x. x \<noteq> CHR 0x0A) (drop 9 (c # cs))) of
              Some g \<Rightarrow> Some g
            | None \<Rightarrow> search_updated cs)
      else search_updated cs)"

text \<open>
  Line 87 calls \<^verbatim>\<open>.group(1)\<close> on the result of the search, which is \<^verbatim>\<open>None\<close> when
  nothing matched: an AttributeError. The parameter \<open>strptime\<close> stands for
  \<^verbatim>\<open>datetime.strptime(_, "%a %b %d %X %Y")\<close> followed by the two \<^verbatim>\<open>strftime\<close> calls
  of lines 90-91 (the date text and the time text); \<open>None\<close> is its ValueError.
\<close>

definition date_and_time ::
  "(string \<Rightarrow> (string \<times> string) option) \<Rightarrow> string \<Rightarrow> error + string \<times> string" where
  "date_and_time strptime html =
     (case search_updated html of
        None \<Rightarrow> Inl AttributeError
      | Some g \<Rightarrow> (case strptime g of None \<Rightarrow> Inl ValueError | Some dt \<Rightarrow> Inr dt))"

section \<open>Statistics (lines 98-133)\<close>

definition column :: "phase \<Rightarrow> frame \<Rightarrow> string list" where
  "column ph df = map (col ph) df"

text \<open>
  \<^verbatim>\<open>value_counts().reindex(labels, fill_value=0)[v]\<close>: how often \<open>v\<close> stands in the
  column, 0 when it does not.
\<close>

definition value_count :: "string list \<Rightarrow> string \<Rightarrow> nat" where
  "value_count xs v = length (filter (\<lambda>x. x = v) xs)"

record phase_stats =
  ps_phase :: phase
  ps_targets :: nat
  ps_penalized :: nat
  ps_too_late :: nat
  ps_invalid :: nat

definition phase_count_ser :: "frame \<Rightarrow> phase \<Rightarrow> phase_stats" where
  "phase_count_ser df ph =
     \<lparr>ps_phase = ph,
      ps_targets = value_count (column ph df) (points_per_phase ph)
                   + value_count (column ph df) ''Penalized'',
      ps_penalized = value_count (column ph df) ''Penalized'',
      ps_too_late = value_count (column ph df) ''Too Late'',
      ps_invalid = value_count (column ph df) ''Invalid''\<rparr>"

text \<open>
  \<^verbatim>\<open>count_df = scoreboard_df[phases].apply(pd.Series.value_counts)\<close> has one row for
  every text that stands in some phase column. \<^verbatim>\<open>count_df.loc[label]\<close> raises a
  KeyError for a label that is in no column; otherwise \<^verbatim>\<open>.sum()\<close> adds the counts of
  the five columns.
\<close>

definition count_df_loc_sum :: "frame \<Rightarrow> string \<Rightarrow> error + nat" where
  "count_df_loc_sum df label =
     (if list_ex (\<lambda>ph. label \<in> set (column ph df)) phases
      then Inr (sum_list (map (\<lambda>ph. value_count (column ph df) label) phases))
      else Inl (KeyError label))"

text \<open>
  The reductions of the \<open>Score\<close> column. pandas skips missing values; the maximum, the
  minimum and the mean of no value are NaN, and so is the sample variance (divisor
  \<open>n - 1\<close>) of fewer than two values. None of them raises. The arithmetic of the model is
  exact: the rounding of floating point is not modelled.
\<close>

fun valid :: "pyfloat list \<Rightarrow> real list" where
  "valid [] = []"
| "valid (NaN # xs) = valid xs"
| "valid (Val v # xs) = v # valid xs"

definition series_max :: "pyfloat list \<Rightarrow> pyfloat" where
  "series_max xs = (case valid xs of [] \<Rightarrow> NaN | v # vs \<Rightarrow> Val (fold max vs v))"

definition series_min :: "pyfloat list \<Rightarrow> pyfloat" where
  "series_min xs = (case valid xs of [] \<Rightarrow> NaN | v # vs \<Rightarrow> Val (fold min vs v))"

fun float_sub :: "pyfloat \<Rightarrow> pyfloat \<Rightarrow> pyfloat" where
  "float_sub (Val a) (Val b) = Val (a - b)"
| "float_sub a b = NaN"

definition series_mean :: "pyfloat list \<Rightarrow> pyfloat" where
  "series_mean xs =
     (let vs = valid xs
      in if vs = [] then NaN else Val (sum_list vs / real (length vs)))"

definition series_var :: "pyfloat list \<Rightarrow> pyfloat" where
  "series_var xs =
     (let vs = valid xs; n = length vs; m = sum_list vs / real n
      in if n \<le> 1 then NaN
         else Val (sum_list (map (\<lambda>v. (v - m)\<^sup>2) vs) / real (n - 1)))"

definition series_std :: "pyfloat list \<Rightarrow> pyfloat" where
  "series_std xs = (case series_var xs of NaN \<Rightarrow> NaN | Val v \<Rightarrow> Val (sqrt v))"

text \<open>
  The report, field by field as lines 98-129 print it. (The text itself, with its four
  decimal places, is a matter of formatting floats and is not modelled.)
\<close>

record report =
  rep_date :: string
  rep_time :: string
  total_targets :: nat
  per_phase :: "phase_stats list"
  no_phases :: nat
  total_penalized :: nat
  total_late :: nat
  total_invalid :: nat
  highest_score :: pyfloat
  lowest_score :: pyfloat
  score_range :: pyfloat
  score_mean :: pyfloat
  score_variance :: pyfloat
  score_std :: pyfloat

definition stats :: "string \<times> string \<Rightarrow> frame \<Rightarrow> error + report" where
  "stats dt df =
     (case count_df_loc_sum df ''Penalized'' of
        Inl e \<Rightarrow> Inl e
      | Inr pen \<Rightarrow>
     (case count_df_loc_sum df ''Too Late'' of
        Inl e \<Rightarrow> Inl e
      | Inr late \<Rightarrow>
     (case count_df_loc_sum df ''Invalid'' of
        Inl e \<Rightarrow> Inl e
      | Inr invalid \<Rightarrow>
          Inr \<lparr>rep_date = fst dt, rep_time = snd dt,
               total_targets = length df,
               per_phase = map (phase_count_ser df) (rev phases),
               no_phases = length (filter (\<lambda>r. Score r = Val 0) df),
               total_penalized = pen, total_late = late, total_invalid = invalid,
               highest_score = series_max (map Score df),
               lowest_score = series_min (map Score df),
               score_range = float_sub (series_max (map Score df)) (series_min (map Score df)),
               score_mean = series_mean (map Score df),
               score_variance = series_var (map Score df),
               score_std = series_std (map Score df)\<rparr>)))"

section \<open>Scores histogram (lines 139-162)\<close>

text \<open>
  \<^verbatim>\<open>sns.histplot(scoreboard_df, x="Score", stat="percent", bins=np.arange(0, 121, 5))\<close>:
  24 bins of width 5 from 0 to 120, each closed on the left and open on the right but
  the last, which is closed; the height of a bar is its share of the counted scores, in
  percent. Missing scores are left out.
\<close>

definition in_bin :: "nat \<Rightarrow> real \<Rightarrow> bool" where
  "in_bin i v = (5 * real i \<le> v \<and> (v < 5 * real i + 5 \<or> (i = 23 \<and> v = 120)))"

definition hist_counts :: "real list \<Rightarrow> nat list" where
  "hist_counts vs = map (\<lambda>i. length (filter (in_bin i) vs)) [0..<24]"

definition percent_of :: "nat \<Rightarrow> nat \<Rightarrow> pyfloat" where
  "percent_of c tot = (if tot = 0 then NaN else Val (real c / real tot * 100))"

definition scores_histogram :: "frame \<Rightarrow> pyfloat list" where
  "scores_histogram df =
     (let h = hist_counts (valid (map Score df)) in map (\<lambda>c. percent_of c (sum_list h)) h)"

section \<open>Passed phases barplot (lines 168-211)\<close>

text \<open>The test of line 176 on one row.\<close>

definition passed :: "phase \<Rightarrow> (string, pyfloat) row \<Rightarrow> bool" where
  "passed ph r =
     (col ph r = points_per_phase ph \<or> col ph r = str_penalized_points_per_phase ph)"

text \<open>
  The loop of lines 174-180 over the phases it is given, with the dataframe and the list
  \<open>phases_count\<close> as its state: it appends the number of rows that pass the test and
  drops these rows from the dataframe.
\<close>

fun furthest_loop :: "phase list \<Rightarrow> frame \<Rightarrow> nat list \<Rightarrow> nat list \<times> frame" where
  "furthest_loop [] df cnt = (cnt, df)"
| "furthest_loop (ph # phs) df cnt =
     furthest_loop phs (filter (\<lambda>r. \<not> passed ph r) df) (cnt @ [length (filter (passed ph) df)])"

definition phases_count :: "frame \<Rightarrow> nat list \<times> frame" where
  "phases_count df = furthest_loop (rev phases) df []"

text \<open>
  The columns of \<open>phases_df\<close> (lines 183-185), in the order of \<open>phases\<close>: \<open>Count\<close> is the
  list reversed, \<open>Proportion\<close> divides by the sum of \<open>Count\<close> (0 / 0 is NaN), \<open>Percent\<close>
  is a hundred times that.
\<close>

definition Count :: "nat list \<Rightarrow> nat list" where
  "Count cnt = rev cnt"

definition Proportion :: "nat list \<Rightarrow> pyfloat list" where
  "Proportion cnt =
     map (\<lambda>c. if sum_list (Count cnt) = 0 then NaN else Val (real c / real (sum_list (Count cnt))))
       (Count cnt)"

fun float_mul :: "pyfloat \<Rightarrow> real \<Rightarrow> pyfloat" where
  "float_mul NaN k = NaN"
| "float_mul (Val x) k = Val (x * k)"

definition Percent :: "nat list \<Rightarrow> pyfloat list" where
  "Percent cnt = map (\<lambda>p. float_mul p 100) (Proportion cnt)"

text \<open>
  \<^verbatim>\<open>.round(1)\<close>: ten times the value, rounded to the nearest integer (a tie goes to
  the even one), divided by ten. \<^verbatim>\<open>.astype("str")\<close> prints the float.
\<close>

definition rint :: "real \<Rightarrow> int" where
  "rint x =
     (let f = \<lfloor>x\<rfloor>; d = x - of_int f
      in if d < 1 / 2 then f else if 1 / 2 < d then f + 1 else if even f then f else f + 1)"

fun round1 :: "pyfloat \<Rightarrow> pyfloat" where
  "round1 NaN = NaN"
| "round1 (Val x) = Val (of_int (rint (x * 10)) / 10)"

fun str_pyfloat :: "pyfloat \<Rightarrow> string" where
  "str_pyfloat NaN = ''nan''"
| "str_pyfloat (Val x) = str_float x"

definition bars_labels :: "nat list \<Rightarrow> string list" where
  "bars_labels cnt =
     map (\<lambda>(p, c). str_pyfloat (round1 p) @ [CHR ''%'', CHR 0x0A] @ str_nat c)
       (zip (Percent cnt) (Count cnt))"

record barplot =
  bar_heights :: "pyfloat list"
  bar_labels :: "string list"

section \<open>The script\<close>

text \<open>
  What the run depends on and the script does not compute itself: the configured URL,
  what \<^verbatim>\<open>urlopen(url).read().decode("utf-8")\<close> gives (the decoded body, or the
  exception raised), the table \<^verbatim>\<open>pd.read_html(html, match="#")[0]\<close> without its
  columns \<open>#\<close> and \<open>Date\<close> (\<open>None\<close> when line 68 raises), and the two parsers.
\<close>

record world =
  url :: string
  response :: "fetch_exn + string"
  read_html :: "string \<Rightarrow> (cell, cell) row list option"
  float_of_text :: "string \<Rightarrow> pyfloat option"
  strptime :: "string \<Rightarrow> (string \<times> string) option"

definition missing_url :: string where
  "missing_url = ''Missing URL: add URL to the line 13 (or 11) of the script''"

definition incorrect_url :: string where
  "incorrect_url = ''Incorrect URL or the webpage is not available: check URL manually!''"

definition title :: string where
  "title = ''<title>Attack Lab Scoreboard</title>''"

text \<open>The three files, in the order the script writes them.\<close>

datatype artifact =
    Project_stats_txt report
  | Scores_histogram_png "pyfloat list"
  | Phases_barplot_png barplot

text \<open>
  How a run ends: with an error, or at the last line, with the dataframe that the
  variable \<open>scoreboard_df\<close> then holds.
\<close>

datatype outcome = Failed error | Finished frame

text \<open>
  Lines 98-211 from the normalized dataframe: the report is written first, the histogram
  is drawn from the dataframe as it is then, and the loop of the barplot drops rows from
  it last.
\<close>

definition report_and_plots :: "string \<times> string \<Rightarrow> frame \<Rightarrow> outcome \<times> artifact list" where
  "report_and_plots dt df =
     (case stats dt df of
        Inl e \<Rightarrow> (Failed e, [])
      | Inr rep \<Rightarrow>
          (let files1 = [Project_stats_txt rep];
               files2 = files1 @ [Scores_histogram_png (scores_histogram df)];
               (cnt, df') = phases_count df;
               files3 = files2 @ [Phases_barplot_png
                  \<lparr>bar_heights = Proportion cnt, bar_labels = bars_labels cnt\<rparr>]
           in (Finished df', files3)))"

definition run :: "world \<Rightarrow> outcome \<times> artifact list" where
  "run w =
     (if url w = ''INSERT URL HERE'' then (Failed (Exit missing_url), [])
      else
        (case response w of
           Inl e \<Rightarrow> (Failed (FetchRaised e), [])
         | Inr html \<Rightarrow>
             (if \<not> contains title html then (Failed (Exit incorrect_url), [])
              else
                (case read_html w html of
                   None \<Rightarrow> (Failed ReadHtmlRaised, [])
                 | Some raw \<Rightarrow>
                     (case scoreboard_df (float_of_text w) raw of
                        Inl e \<Rightarrow> (Failed e, [])
                      | Inr df \<Rightarrow>
                          (case date_and_time (strptime w) html of
                             Inl e \<Rightarrow> (Failed e, [])
                           | Inr dt \<Rightarrow> report_and_plots dt df))))))"

section \<open>Facts about the removal of \<open>.0\<close>\<close>








section \<open>Normalization of penalized cells\<close>




section \<open>The coercion of phase cells to text\<close>











section \<open>The furthest phase\<close>















section \<open>The totals over all phases\<close>

text \<open>
  Claim C7. The claim has a category that stands in no cell of any phase give the
  total 0. For the one-row table with full credit in phases 1 to 4 and 0 in phase 5, no
  cell is \<open>Penalized\<close>: \<open>count_df\<close> has no such row, line 119 raises a KeyError and no
  report is made. The counts per phase of line 103, which reindex with \<open>fill_value=0\<close>,
  give 0 for the same table.
\<close>

theorem absent_category_raises:
  "count_df_loc_sum
     [\<lparr>p1 = ''15'', p2 = ''25'', p3 = ''25'', p4 = ''35'', p5 = ''0'', Score = Val 100\<rparr>]
     ''Penalized'' = Inl (KeyError ''Penalized'')
   \<and> stats dt
     [\<lparr>p1 = ''15'', p2 = ''25'', p3 = ''25'', p4 = ''35'', p5 = ''0'', Score = Val 100\<rparr>]
     = Inl (KeyError ''Penalized'')
   \<and> ps_penalized (phase_count_ser
     [\<lparr>p1 = ''15'', p2 = ''25'', p3 = ''25'', p4 = ''35'', p5 = ''0'', Score = Val 100\<rparr>]
     Phase1) = 0"
  by (simp add: stats_def count_df_loc_sum_def phases_def column_def phase_count_ser_def
      value_count_def)

section \<open>Statistics of few scores\<close>






section \<open>Runs that fail\<close>



text \<open>
  Claim C6, as amended. When the pattern of the timestamp matches nowhere in the fetched
  document, the run fails and writes no file; when the steps before line 87 succeed,
  the error is the AttributeError of calling \<open>group\<close> on the failed search.
\<close>

theorem missing_timestamp_aborts:
  "response w = Inr html \<Longrightarrow> search_updated html = None \<Longrightarrow>
     (\<exists>e. run w = (Failed e, []))
   \<and> (url w \<noteq> ''INSERT URL HERE'' \<and> contains title html \<and> read_html w html = Some raw
        \<and> scoreboard_df (float_of_text w) raw = Inr df
      \<longrightarrow> run w = (Failed AttributeError, []))"
  by (auto simp: run_def date_and_time_def split: sum.splits option.splits)

theorem missing_timestamp_aborts_witness:
  "response \<lparr>url = ''http://systems3.cs.uic.edu:15513/scoreboard'',
        response = Inr ''<title>Attack Lab Scoreboard</title>'',
        read_html = (\<lambda>_. Some [\<lparr>p1 = PyStr ''15'', p2 = PyStr ''21.25'', p3 = PyStr ''Too Late'',
                                  p4 = PyStr ''Invalid'', p5 = PyStr ''0'', Score = PyStr ''36.25''\<rparr>]),
        float_of_text = (\<lambda>s. if s = ''36.25'' then Some (Val 36.25) else None),
        strptime = (\<lambda>_. Some (''Monday, October 02'', ''10:00 AM''))\<rparr>
     = Inr ''<title>Attack Lab Scoreboard</title>''
   \<and> search_updated ''<title>Attack Lab Scoreboard</title>'' = None
   \<and> contains title ''<title>Attack Lab Scoreboard</title>''
   \<and> scoreboard_df (\<lambda>s. if s = ''36.25'' then Some (Val 36.25) else None)
        [\<lparr>p1 = PyStr ''15'', p2 = PyStr ''21.25'', p3 = PyStr ''Too Late'',
          p4 = PyStr ''Invalid'', p5 = PyStr ''0'', Score = PyStr ''36.25''\<rparr>]
      = Inr [\<lparr>p1 = ''15'', p2 = ''Penalized'', p3 = ''Too Late'', p4 = ''Invalid'', p5 = ''0'',
          Score = Val 36.25\<rparr>]
   \<and> run \<lparr>url = ''http://systems3.cs.uic.edu:15513/scoreboard'',
        response = Inr ''<title>Attack Lab Scoreboard</title>'',
        read_html = (\<lambda>_. Some [\<lparr>p1 = PyStr ''15'', p2 = PyStr ''21.25'', p3 = PyStr ''Too Late'',
                                  p4 = PyStr ''Invalid'', p5 = PyStr ''0'', Score = PyStr ''36.25''\<rparr>]),
        float_of_text = (\<lambda>s. if s = ''36.25'' then Some (Val 36.25) else None),
        strptime = (\<lambda>_. Some (''Monday, October 02'', ''10:00 AM''))\<rparr>
      = (Failed AttributeError, [])"
proof -
  have n: "scoreboard_df (\<lambda>s. if s = ''36.25'' then Some (Val 36.25) else None)
        [\<lparr>p1 = PyStr ''15'', p2 = PyStr ''21.25'', p3 = PyStr ''Too Late'',
          p4 = PyStr ''Invalid'', p5 = PyStr ''0'', Score = PyStr ''36.25''\<rparr>]
      = Inr [\<lparr>p1 = ''15'', p2 = ''Penalized'', p3 = ''Too Late'', p4 = ''Invalid'', p5 = ''0'',
          Score = Val 36.25\<rparr>]"
    by (simp add: scoreboard_df_def normalize_row_def normalize_cell_def replace_float_def
        replace_str_def str_replace_def)
  show ?thesis
    using missing_timestamp_aborts
      [where w = "\<lparr>url = ''http://systems3.cs.uic.edu:15513/scoreboard'',
        response = Inr ''<title>Attack Lab Scoreboard</title>'',
        read_html = (\<lambda>_. Some [\<lparr>p1 = PyStr ''15'', p2 = PyStr ''21.25'', p3 = PyStr ''Too Late'',
                                  p4 = PyStr ''Invalid'', p5 = PyStr ''0'', Score = PyStr ''36.25''\<rparr>]),
        float_of_text = (\<lambda>s. if s = ''36.25'' then Some (Val 36.25) else None),
        strptime = (\<lambda>_. Some (''Monday, October 02'', ''10:00 AM''))\<rparr>"
        and html = "''<title>Attack Lab Scoreboard</title>''"
        and raw = "[\<lparr>p1 = PyStr ''15'', p2 = PyStr ''21.25'', p3 = PyStr ''Too Late'',
          p4 = PyStr ''Invalid'', p5 = PyStr ''0'', Score = PyStr ''36.25''\<rparr>]"
        and df = "[\<lparr>p1 = ''15'', p2 = ''Penalized'', p3 = ''Too Late'', p4 = ''Invalid'', p5 = ''0'',
          Score = Val 36.25\<rparr>]"]
      n
    by (simp add: title_def)
qed

text \<open>
  Claim C6 as stated has such a run go on with a placeholder and produce all outputs.
  For a page with the title and a table of one row, but without the timestamp, the run
  ends with the AttributeError and no file.
\<close>

theorem missing_timestamp_counterexample:
  "run \<lparr>url = ''http://systems3.cs.uic.edu:15513/scoreboard'',
        response = Inr ''<title>Attack Lab Scoreboard</title>'',
        read_html = (\<lambda>_. Some [\<lparr>p1 = PyStr ''15'', p2 = PyStr ''21.25'', p3 = PyStr ''Too Late'',
                                  p4 = PyStr ''Invalid'', p5 = PyStr ''0'', Score = PyStr ''36.25''\<rparr>]),
        float_of_text = (\<lambda>s. if s = ''36.25'' then Some (Val 36.25) else None),
        strptime = (\<lambda>_. Some (''Monday, October 02'', ''10:00 AM''))\<rparr>
   = (Failed AttributeError, [])"
  by (simp add: run_def title_def scoreboard_df_def normalize_row_def date_and_time_def)

text \<open>
  Claim C8, as amended. When the fetch raises, the run ends with that exception, which
  is not the exit of the title check, and writes no file. An empty body is not an error
  of the fetch: the run goes on to the title check and ends there, with the same exit
  as for a wrong page.
\<close>

theorem fetch_failure_and_empty_body:
  "url w \<noteq> ''INSERT URL HERE'' \<Longrightarrow>
     (response w = Inl x \<longrightarrow> run w = (Failed (FetchRaised x), []))
   \<and> (response w = Inr [] \<longrightarrow> run w = (Failed (Exit incorrect_url), []))
   \<and> FetchRaised x \<noteq> Exit incorrect_url"
  by (simp add: run_def title_def)

theorem fetch_failure_and_empty_body_witness:
  "url \<lparr>url = ''http://systems3.cs.uic.edu:15513/scoreboard'', response = Inl URLError,
        read_html = (\<lambda>_. None), float_of_text = (\<lambda>_. None), strptime = (\<lambda>_. None)\<rparr> \<noteq> ''INSERT URL HERE''
   \<and> run \<lparr>url = ''http://systems3.cs.uic.edu:15513/scoreboard'', response = Inl URLError,
        read_html = (\<lambda>_. None), float_of_text = (\<lambda>_. None), strptime = (\<lambda>_. None)\<rparr>
      = (Failed (FetchRaised URLError), [])
   \<and> url \<lparr>url = ''http://systems3.cs.uic.edu:15513/scoreboard'', response = Inr [],
        read_html = (\<lambda>_. None), float_of_text = (\<lambda>_. None), strptime = (\<lambda>_. None)\<rparr> \<noteq> ''INSERT URL HERE''
   \<and> run \<lparr>url = ''http://systems3.cs.uic.edu:15513/scoreboard'', response = Inr [],
        read_html = (\<lambda>_. None), float_of_text = (\<lambda>_. None), strptime = (\<lambda>_. None)\<rparr>
      = (Failed (Exit incorrect_url), [])"
  using fetch_failure_and_empty_body
    [of "\<lparr>url = ''http://systems3.cs.uic.edu:15513/scoreboard'', response = Inl URLError,
        read_html = (\<lambda>_. None), float_of_text = (\<lambda>_. None), strptime = (\<lambda>_. None)\<rparr>" URLError]
    fetch_failure_and_empty_body
    [of "\<lparr>url = ''http://systems3.cs.uic.edu:15513/scoreboard'', response = Inr [],
        read_html = (\<lambda>_. None), float_of_text = (\<lambda>_. None), strptime = (\<lambda>_. None)\<rparr>" URLError]
  by simp

text \<open>
  Claim C8 as stated has an empty body fail with an error of the fetch, distinct from
  the error of the title check. The run with an empty body ends with the exit of the
  title check.
\<close>

theorem empty_body_counterexample:
  "run \<lparr>url = ''http://systems3.cs.uic.edu:15513/scoreboard'', response = Inr [],
        read_html = (\<lambda>_. None), float_of_text = (\<lambda>_. None), strptime = (\<lambda>_. None)\<rparr>
   = (Failed (Exit incorrect_url), [])"
  by (simp add: run_def title_def)

section \<open>Runs that finish\<close>







end
